theory Spec2Isabelle
  imports Main
begin

section \<open>The C binding of the simple proof example\<close>

text \<open>
  The unit verified here is \<^verbatim>\<open>src/barretenberg/examples/c_bind.cpp\<close>:
  \<^verbatim>\<open>
  const char* examples_simple_create_and_verify_proof(bool* valid)
  {
      try {
          auto ptrs = examples::simple::create_builder_and_composer(barretenberg::srs::get_crs_factory());
          auto proof = examples::simple::create_proof(ptrs);
          *valid = examples::simple::verify_proof(ptrs, proof);
          examples::simple::delete_builder_and_composer(ptrs);
          return nullptr;
      } catch (const std::exception &e) {
          return e.what(); // return the exception message
      }
  }
  \<close>
  The five functions it calls are declared in headers that are not part of the sources, so
  they are parameters of the model. Each of them may read and change state that the
  function above never touches directly (the global reference string, the heap objects
  behind the builder and composer pointers); that state is the type variable \<open>'w\<close>.
\<close>

subsection \<open>Thrown objects and the value of a call\<close>

type_synonym addr = nat

text \<open>
  A C++ function either returns or throws. What is thrown is an object of any type; the
  handler of the function above names \<^verbatim>\<open>const std::exception &\<close>, so the model
  separates the objects whose class derives from \<^verbatim>\<open>std::exception\<close> from every
  other thrown object.

  \<open>Std_exception a msg st\<close> is an exception object whose \<^verbatim>\<open>what()\<close> returns the
  address \<open>a\<close>, where the characters \<open>msg\<close> are stored. These characters either
  belong to the exception object and go when it is destroyed (\<^verbatim>\<open>std::runtime_error\<close>
  and the other classes that carry a message given at construction), or they are a
  string literal in static storage (\<^verbatim>\<open>std::bad_alloc\<close>, \<^verbatim>\<open>std::exception\<close>
  itself).
\<close>

datatype storage = Owned_by_exception | Static_storage

datatype thrown = Std_exception addr string storage | Other_throwable

text \<open>\<^verbatim>\<open>std::runtime_error(msg)\<close>, with its copy of the message at address \<open>a\<close>.\<close>

definition runtime_error :: "addr \<Rightarrow> string \<Rightarrow> thrown" where
  "runtime_error a msg = Std_exception a msg Owned_by_exception"

text \<open>
  The entry point returns a \<^verbatim>\<open>const char*\<close>: \<open>None\<close> is the null pointer,
  \<open>Some a\<close> the address \<open>a\<close>. What the caller finds at that address is a matter of
  the state the call leaves. A thrown object that no handler of the function matches
  leaves the function.
\<close>

datatype outcome = Returned "addr option" | Propagated thrown

subsection \<open>The functions called\<close>

type_synonym ('a, 'w) extern = "'w \<Rightarrow> (thrown + 'a) \<times> 'w"

record ('w, 'crs, 'ptrs, 'prf) collaborators =
  get_crs_factory :: "('crs, 'w) extern"
  create_builder_and_composer :: "'crs \<Rightarrow> ('ptrs, 'w) extern"
  create_proof :: "'ptrs \<Rightarrow> ('prf, 'w) extern"
  verify_proof :: "'ptrs \<Rightarrow> 'prf \<Rightarrow> (bool, 'w) extern"
  delete_builder_and_composer :: "'ptrs \<Rightarrow> (unit, 'w) extern"

subsection \<open>The state the entry point runs in\<close>

text \<open>
  The caller's memory holds booleans at addresses; the parameter \<^verbatim>\<open>valid\<close> is one
  address of it, taken to point to a live \<^verbatim>\<open>bool\<close> as the C interface requires.
  The character strings of the process are in \<open>cstrings\<close>: \<open>cstrings s a = Some msg\<close>
  when the characters \<open>msg\<close> are alive at address \<open>a\<close>, and \<open>None\<close> when no
  object is alive there, so that reading through a pointer to \<open>a\<close> is undefined.
  The trace records, in program order, every call the entry point makes and every store
  it performs; it is bookkeeping of the model and decides nothing.
\<close>

datatype ('crs, 'ptrs, 'prf) event =
    Called_get_crs_factory
  | Called_create_builder_and_composer 'crs
  | Called_create_proof 'ptrs
  | Called_verify_proof 'ptrs 'prf
  | Stored addr bool
  | Called_delete_builder_and_composer 'ptrs

record ('w, 'crs, 'ptrs, 'prf) machine =
  world :: 'w
  mem :: "addr \<Rightarrow> bool"
  cstrings :: "addr \<Rightarrow> string option"
  trace :: "('crs, 'ptrs, 'prf) event list"

type_synonym ('a, 'w, 'crs, 'ptrs, 'prf) comp =
  "('w, 'crs, 'ptrs, 'prf) machine \<Rightarrow> (thrown + 'a) \<times> ('w, 'crs, 'ptrs, 'prf) machine"

text \<open>Sequencing of statements: a thrown object skips everything after it.\<close>

definition and_then ::
  "('a, 'w, 'crs, 'ptrs, 'prf) comp \<Rightarrow> ('a \<Rightarrow> ('b, 'w, 'crs, 'ptrs, 'prf) comp)
     \<Rightarrow> ('b, 'w, 'crs, 'ptrs, 'prf) comp" where
  "and_then m f s = (case m s of (Inl e, s') \<Rightarrow> (Inl e, s') | (Inr a, s') \<Rightarrow> f a s')"

definition return_value :: "'a \<Rightarrow> ('a, 'w, 'crs, 'ptrs, 'prf) comp" where
  "return_value a s = (Inr a, s)"

text \<open>
  The lifetime of the characters behind \<^verbatim>\<open>what()\<close>: they are alive from the moment
  the exception object is thrown, and those that belong to the exception object go when
  it is destroyed.
\<close>

fun what_alive :: "thrown \<Rightarrow> (addr \<Rightarrow> string option) \<Rightarrow> (addr \<Rightarrow> string option)" where
  "what_alive (Std_exception a msg st) cs = cs(a \<mapsto> msg)"
| "what_alive Other_throwable cs = cs"

fun what_destroyed :: "thrown \<Rightarrow> (addr \<Rightarrow> string option) \<Rightarrow> (addr \<Rightarrow> string option)" where
  "what_destroyed (Std_exception a msg Owned_by_exception) cs = cs(a := None)"
| "what_destroyed (Std_exception a msg Static_storage) cs = cs"
| "what_destroyed Other_throwable cs = cs"

text \<open>
  A call of one of the external functions: it runs on the external state only. When it
  throws, the thrown object is alive from then on.
\<close>

definition call_external ::
  "('crs, 'ptrs, 'prf) event \<Rightarrow> ('a, 'w) extern \<Rightarrow> ('a, 'w, 'crs, 'ptrs, 'prf) comp" where
  "call_external ev f s =
     (case f (world s) of
        (r, w') \<Rightarrow>
          (r, s\<lparr>world := w', trace := trace s @ [ev],
                cstrings := (case r of Inl e \<Rightarrow> what_alive e (cstrings s) | Inr _ \<Rightarrow> cstrings s)\<rparr>))"

text \<open>The store \<^verbatim>\<open>*valid = b\<close>.\<close>

definition store_bool :: "addr \<Rightarrow> bool \<Rightarrow> (unit, 'w, 'crs, 'ptrs, 'prf) comp" where
  "store_bool a b s = (Inr (), s\<lparr>mem := (mem s)(a := b), trace := trace s @ [Stored a b]\<rparr>)"

subsection \<open>The entry point\<close>

text \<open>
  The body of the \<^verbatim>\<open>try\<close> block, statement by statement. The argument of
  \<^verbatim>\<open>create_builder_and_composer\<close> is evaluated before the call, and the right-hand
  side of the assignment to \<^verbatim>\<open>*valid\<close> before the store.
\<close>

definition try_block ::
  "('w, 'crs, 'ptrs, 'prf) collaborators \<Rightarrow> addr \<Rightarrow> (addr option, 'w, 'crs, 'ptrs, 'prf) comp" where
  "try_block env valid =
     and_then (call_external Called_get_crs_factory (get_crs_factory env)) (\<lambda>crs.
     and_then (call_external (Called_create_builder_and_composer crs)
                 (create_builder_and_composer env crs)) (\<lambda>ptrs.
     and_then (call_external (Called_create_proof ptrs) (create_proof env ptrs)) (\<lambda>prf.
     and_then (call_external (Called_verify_proof ptrs prf) (verify_proof env ptrs prf)) (\<lambda>b.
     and_then (store_bool valid b) (\<lambda>_.
     and_then (call_external (Called_delete_builder_and_composer ptrs)
                 (delete_builder_and_composer env ptrs)) (\<lambda>_.
     return_value None))))))"

text \<open>
  The handler \<^verbatim>\<open>catch (const std::exception &e) { return e.what(); }\<close>: it matches
  the objects derived from \<^verbatim>\<open>std::exception\<close> and no other, and the value it
  returns is the pointer that \<^verbatim>\<open>what()\<close> gives.
\<close>

fun catch_std_exception :: "thrown \<Rightarrow> outcome" where
  "catch_std_exception (Std_exception a msg st) = Returned (Some a)"
| "catch_std_exception Other_throwable = Propagated Other_throwable"

text \<open>
  The handler catches by reference, so the exception object lives until the handler is
  left and is destroyed then, after the return value has been computed. An object that
  the handler does not match stays alive and propagates.
\<close>

definition leave_handler ::
  "thrown \<Rightarrow> ('w, 'crs, 'ptrs, 'prf) machine \<Rightarrow> ('w, 'crs, 'ptrs, 'prf) machine" where
  "leave_handler e s = s\<lparr>cstrings := what_destroyed e (cstrings s)\<rparr>"

definition examples_simple_create_and_verify_proof ::
  "('w, 'crs, 'ptrs, 'prf) collaborators \<Rightarrow> addr \<Rightarrow> ('w, 'crs, 'ptrs, 'prf) machine
     \<Rightarrow> outcome \<times> ('w, 'crs, 'ptrs, 'prf) machine" where
  "examples_simple_create_and_verify_proof env valid s =
     (case try_block env valid s of
        (Inr r, s') \<Rightarrow> (Returned r, s')
      | (Inl e, s') \<Rightarrow> (catch_std_exception e, leave_handler e s'))"

subsection \<open>What the external functions do in the course of one call\<close>

text \<open>
  The five external calls, in program order. The following functions look only at the
  external functions: started in the external state \<open>w\<close>, how far do they get when
  each one is run on the results and on the state the previous ones left?
\<close>

datatype step =
    Step_get_crs_factory
  | Step_create_builder_and_composer
  | Step_create_proof
  | Step_verify_proof
  | Step_delete_builder_and_composer

definition crs_acquired ::
  "('w, 'crs, 'ptrs, 'prf) collaborators \<Rightarrow> 'w \<Rightarrow> ('crs \<times> 'w) option" where
  "crs_acquired env w =
     (case get_crs_factory env w of (Inr crs, w1) \<Rightarrow> Some (crs, w1) | (Inl _, _) \<Rightarrow> None)"

definition handle_built ::
  "('w, 'crs, 'ptrs, 'prf) collaborators \<Rightarrow> 'w \<Rightarrow> ('ptrs \<times> 'w) option" where
  "handle_built env w =
     (case crs_acquired env w of
        None \<Rightarrow> None
      | Some (crs, w1) \<Rightarrow>
          (case create_builder_and_composer env crs w1 of
             (Inr ptrs, w2) \<Rightarrow> Some (ptrs, w2)
           | (Inl _, _) \<Rightarrow> None))"

definition proof_created ::
  "('w, 'crs, 'ptrs, 'prf) collaborators \<Rightarrow> 'w \<Rightarrow> ('ptrs \<times> 'prf \<times> 'w) option" where
  "proof_created env w =
     (case handle_built env w of
        None \<Rightarrow> None
      | Some (ptrs, w2) \<Rightarrow>
          (case create_proof env ptrs w2 of
             (Inr prf, w3) \<Rightarrow> Some (ptrs, prf, w3)
           | (Inl _, _) \<Rightarrow> None))"

text \<open>
  \<open>verification_returned env w = Some (b, ptrs, w4)\<close>: \<^verbatim>\<open>verify_proof\<close> was
  reached and returned \<open>b\<close>.
\<close>

definition verification_returned ::
  "('w, 'crs, 'ptrs, 'prf) collaborators \<Rightarrow> 'w \<Rightarrow> (bool \<times> 'ptrs \<times> 'w) option" where
  "verification_returned env w =
     (case proof_created env w of
        None \<Rightarrow> None
      | Some (ptrs, prf, w3) \<Rightarrow>
          (case verify_proof env ptrs prf w3 of
             (Inr b, w4) \<Rightarrow> Some (b, ptrs, w4)
           | (Inl _, _) \<Rightarrow> None))"

text \<open>
  \<open>raises_at env w k e\<close>: the calls before step \<open>k\<close> return and the call of step
  \<open>k\<close> throws \<open>e\<close>.
\<close>

fun raises_at ::
  "('w, 'crs, 'ptrs, 'prf) collaborators \<Rightarrow> 'w \<Rightarrow> step \<Rightarrow> thrown \<Rightarrow> bool" where
  "raises_at env w Step_get_crs_factory e = (fst (get_crs_factory env w) = Inl e)"
| "raises_at env w Step_create_builder_and_composer e =
     (case crs_acquired env w of
        None \<Rightarrow> False
      | Some (crs, w1) \<Rightarrow> fst (create_builder_and_composer env crs w1) = Inl e)"
| "raises_at env w Step_create_proof e =
     (case handle_built env w of
        None \<Rightarrow> False
      | Some (ptrs, w2) \<Rightarrow> fst (create_proof env ptrs w2) = Inl e)"
| "raises_at env w Step_verify_proof e =
     (case proof_created env w of
        None \<Rightarrow> False
      | Some (ptrs, prf, w3) \<Rightarrow> fst (verify_proof env ptrs prf w3) = Inl e)"
| "raises_at env w Step_delete_builder_and_composer e =
     (case verification_returned env w of
        None \<Rightarrow> False
      | Some (b, ptrs, w4) \<Rightarrow> fst (delete_builder_and_composer env ptrs w4) = Inl e)"

subsection \<open>Reading the trace\<close>

fun step_of :: "('crs, 'ptrs, 'prf) event \<Rightarrow> step option" where
  "step_of Called_get_crs_factory = Some Step_get_crs_factory"
| "step_of (Called_create_builder_and_composer _) = Some Step_create_builder_and_composer"
| "step_of (Called_create_proof _) = Some Step_create_proof"
| "step_of (Called_verify_proof _ _) = Some Step_verify_proof"
| "step_of (Stored _ _) = None"
| "step_of (Called_delete_builder_and_composer _) = Some Step_delete_builder_and_composer"

text \<open>The external calls of a trace, in order.\<close>

definition steps_called :: "('crs, 'ptrs, 'prf) event list \<Rightarrow> step list" where
  "steps_called evs = List.map_filter step_of evs"

text \<open>The calls made when the program runs up to step \<open>k\<close> and no further.\<close>

fun steps_through :: "step \<Rightarrow> step list" where
  "steps_through Step_get_crs_factory = [Step_get_crs_factory]"
| "steps_through Step_create_builder_and_composer =
     [Step_get_crs_factory, Step_create_builder_and_composer]"
| "steps_through Step_create_proof =
     [Step_get_crs_factory, Step_create_builder_and_composer, Step_create_proof]"
| "steps_through Step_verify_proof =
     [Step_get_crs_factory, Step_create_builder_and_composer, Step_create_proof,
      Step_verify_proof]"
| "steps_through Step_delete_builder_and_composer =
     [Step_get_crs_factory, Step_create_builder_and_composer, Step_create_proof,
      Step_verify_proof, Step_delete_builder_and_composer]"

fun stored_at :: "addr \<Rightarrow> ('crs, 'ptrs, 'prf) event \<Rightarrow> bool option" where
  "stored_at a (Stored a' b) = (if a' = a then Some b else None)"
| "stored_at a Called_get_crs_factory = None"
| "stored_at a (Called_create_builder_and_composer _) = None"
| "stored_at a (Called_create_proof _) = None"
| "stored_at a (Called_verify_proof _ _) = None"
| "stored_at a (Called_delete_builder_and_composer _) = None"

text \<open>The values stored at address \<open>a\<close>, in order.\<close>

definition stores_to :: "addr \<Rightarrow> ('crs, 'ptrs, 'prf) event list \<Rightarrow> bool list" where
  "stores_to a evs = List.map_filter (stored_at a) evs"

subsection \<open>Properties of the external state\<close>

text \<open>A property \<open>P\<close> of the external state that no external function destroys.\<close>

definition preserved_by_collaborators ::
  "('w \<Rightarrow> bool) \<Rightarrow> ('w, 'crs, 'ptrs, 'prf) collaborators \<Rightarrow> bool" where
  "preserved_by_collaborators P env \<longleftrightarrow>
     (\<forall>w. P w \<longrightarrow> P (snd (get_crs_factory env w))) \<and>
     (\<forall>crs w. P w \<longrightarrow> P (snd (create_builder_and_composer env crs w))) \<and>
     (\<forall>ptrs w. P w \<longrightarrow> P (snd (create_proof env ptrs w))) \<and>
     (\<forall>ptrs pf w. P w \<longrightarrow> P (snd (verify_proof env ptrs pf w))) \<and>
     (\<forall>ptrs w. P w \<longrightarrow> P (snd (delete_builder_and_composer env ptrs w)))"

text \<open>
  A computation is confined when it keeps the property \<open>P\<close> of the external state and
  changes the memory at address \<open>a\<close> only.
\<close>

definition confined ::
  "('w \<Rightarrow> bool) \<Rightarrow> addr \<Rightarrow> ('a, 'w, 'crs, 'ptrs, 'prf) comp \<Rightarrow> bool" where
  "confined P a m \<longleftrightarrow>
     (\<forall>s. P (world s) \<longrightarrow>
        P (world (snd (m s))) \<and> (\<forall>x. x \<noteq> a \<longrightarrow> mem (snd (m s)) x = mem s x))"

subsection \<open>A concrete environment\<close>

text \<open>
  External functions with scripted results, for running the entry point on concrete
  inputs. The external state is the set of builder/composer pairs that have been created
  and not yet deleted; setup parameters, pairs and proofs are numbers.
\<close>

definition scripted ::
  "thrown + nat \<Rightarrow> thrown + nat \<Rightarrow> thrown + nat \<Rightarrow> thrown + bool \<Rightarrow> thrown + unit
     \<Rightarrow> (nat set, nat, nat, nat) collaborators" where
  "scripted c h p v d =
     \<lparr>get_crs_factory = (\<lambda>w. (c, w)),
      create_builder_and_composer =
        (\<lambda>crs w. (h, case h of Inl _ \<Rightarrow> w | Inr ptrs \<Rightarrow> insert ptrs w)),
      create_proof = (\<lambda>ptrs w. (p, w)),
      verify_proof = (\<lambda>ptrs pf w. (v, w)),
      delete_builder_and_composer =
        (\<lambda>ptrs w. (d, case d of Inl _ \<Rightarrow> w | Inr _ \<Rightarrow> w - {ptrs}))\<rparr>"

text \<open>
  A start state: nothing allocated, no character string alive, every boolean of the
  memory equal to \<open>b\<close>.
\<close>

definition fresh :: "bool \<Rightarrow> (nat set, nat, nat, nat) machine" where
  "fresh b = \<lparr>world = {}, mem = (\<lambda>_. b), cstrings = (\<lambda>_. None), trace = []\<rparr>"

section \<open>How a call runs\<close>

lemmas run_defs =
  try_block_def and_then_def call_external_def store_bool_def return_value_def

lemma try_block_get_crs_factory_throws:
  assumes "get_crs_factory env (world s) = (Inl e, w1)"
  shows "try_block env valid s =
    (Inl e, s\<lparr>world := w1, cstrings := what_alive e (cstrings s),
       trace := trace s @ [Called_get_crs_factory]\<rparr>)"
  using assms by (simp add: run_defs)

lemma try_block_create_builder_and_composer_throws:
  assumes "get_crs_factory env (world s) = (Inr crs, w1)"
    and "create_builder_and_composer env crs w1 = (Inl e, w2)"
  shows "try_block env valid s =
    (Inl e, s\<lparr>world := w2, cstrings := what_alive e (cstrings s),
       trace := trace s @ [Called_get_crs_factory, Called_create_builder_and_composer crs]\<rparr>)"
  using assms by (simp add: run_defs)

lemma try_block_create_proof_throws:
  assumes "get_crs_factory env (world s) = (Inr crs, w1)"
    and "create_builder_and_composer env crs w1 = (Inr ptrs, w2)"
    and "create_proof env ptrs w2 = (Inl e, w3)"
  shows "try_block env valid s =
    (Inl e, s\<lparr>world := w3, cstrings := what_alive e (cstrings s),
       trace := trace s @ [Called_get_crs_factory, Called_create_builder_and_composer crs,
         Called_create_proof ptrs]\<rparr>)"
  using assms by (simp add: run_defs)

lemma try_block_verify_proof_throws:
  assumes "get_crs_factory env (world s) = (Inr crs, w1)"
    and "create_builder_and_composer env crs w1 = (Inr ptrs, w2)"
    and "create_proof env ptrs w2 = (Inr prf, w3)"
    and "verify_proof env ptrs prf w3 = (Inl e, w4)"
  shows "try_block env valid s =
    (Inl e, s\<lparr>world := w4, cstrings := what_alive e (cstrings s),
       trace := trace s @ [Called_get_crs_factory, Called_create_builder_and_composer crs,
         Called_create_proof ptrs, Called_verify_proof ptrs prf]\<rparr>)"
  using assms by (simp add: run_defs)

lemma try_block_delete_builder_and_composer_throws:
  assumes "get_crs_factory env (world s) = (Inr crs, w1)"
    and "create_builder_and_composer env crs w1 = (Inr ptrs, w2)"
    and "create_proof env ptrs w2 = (Inr prf, w3)"
    and "verify_proof env ptrs prf w3 = (Inr b, w4)"
    and "delete_builder_and_composer env ptrs w4 = (Inl e, w5)"
  shows "try_block env valid s =
    (Inl e, s\<lparr>world := w5, mem := (mem s)(valid := b),
       cstrings := what_alive e (cstrings s),
       trace := trace s @ [Called_get_crs_factory, Called_create_builder_and_composer crs,
         Called_create_proof ptrs, Called_verify_proof ptrs prf, Stored valid b,
         Called_delete_builder_and_composer ptrs]\<rparr>)"
  using assms by (simp add: run_defs)

lemma try_block_completes:
  assumes "get_crs_factory env (world s) = (Inr crs, w1)"
    and "create_builder_and_composer env crs w1 = (Inr ptrs, w2)"
    and "create_proof env ptrs w2 = (Inr prf, w3)"
    and "verify_proof env ptrs prf w3 = (Inr b, w4)"
    and "delete_builder_and_composer env ptrs w4 = (Inr u, w5)"
  shows "try_block env valid s =
    (Inr None, s\<lparr>world := w5, mem := (mem s)(valid := b),
       trace := trace s @ [Called_get_crs_factory, Called_create_builder_and_composer crs,
         Called_create_proof ptrs, Called_verify_proof ptrs prf, Stored valid b,
         Called_delete_builder_and_composer ptrs]\<rparr>)"
  using assms by (simp add: run_defs)

lemmas observer_defs =
  verification_returned_def proof_created_def handle_built_def crs_acquired_def

lemmas example_defs =
  examples_simple_create_and_verify_proof_def try_block_def and_then_def call_external_def
  store_bool_def return_value_def leave_handler_def runtime_error_def scripted_def fresh_def

lemma crs_acquiredD:
  assumes "crs_acquired env w = Some (crs, w1)"
  shows "get_crs_factory env w = (Inr crs, w1)"
  using assms by (auto simp: crs_acquired_def split: prod.splits sum.splits)

lemma handle_builtD:
  assumes "handle_built env w = Some (ptrs, w2)"
  obtains crs w1 where "get_crs_factory env w = (Inr crs, w1)"
    and "create_builder_and_composer env crs w1 = (Inr ptrs, w2)"
  using assms
  by (auto simp: handle_built_def dest: crs_acquiredD split: option.splits prod.splits sum.splits)

lemma proof_createdD:
  assumes "proof_created env w = Some (ptrs, prf, w3)"
  obtains crs w1 w2 where "get_crs_factory env w = (Inr crs, w1)"
    and "create_builder_and_composer env crs w1 = (Inr ptrs, w2)"
    and "create_proof env ptrs w2 = (Inr prf, w3)"
  using assms
  by (auto simp: proof_created_def elim: handle_builtD split: option.splits prod.splits sum.splits)

lemma verification_returnedD:
  assumes "verification_returned env w = Some (b, ptrs, w4)"
  obtains crs w1 w2 pf w3 where "get_crs_factory env w = (Inr crs, w1)"
    and "create_builder_and_composer env crs w1 = (Inr ptrs, w2)"
    and "create_proof env ptrs w2 = (Inr pf, w3)"
    and "verify_proof env ptrs pf w3 = (Inr b, w4)"
  using assms
  by (auto simp: verification_returned_def elim: proof_createdD
      split: option.splits prod.splits sum.splits)

lemma entry_state:
  "world (snd (examples_simple_create_and_verify_proof env valid s)) =
     world (snd (try_block env valid s))"
  "mem (snd (examples_simple_create_and_verify_proof env valid s)) =
     mem (snd (try_block env valid s))"
  "trace (snd (examples_simple_create_and_verify_proof env valid s)) =
     trace (snd (try_block env valid s))"
  by (simp_all add: examples_simple_create_and_verify_proof_def leave_handler_def
      split: prod.splits sum.splits)

lemma entry_outcome:
  "fst (examples_simple_create_and_verify_proof env valid s) =
     (case fst (try_block env valid s) of Inr r \<Rightarrow> Returned r | Inl e \<Rightarrow> catch_std_exception e)"
  by (simp add: examples_simple_create_and_verify_proof_def split: prod.splits sum.splits)

lemma steps_called_append:
  "steps_called (xs @ ys) = steps_called xs @ steps_called ys"
  by (simp add: steps_called_def map_filter_def)

lemma stores_to_append:
  "stores_to a (xs @ ys) = stores_to a xs @ stores_to a ys"
  by (simp add: stores_to_def map_filter_def)

lemma raises_at_cases:
  assumes "raises_at env w k e"
  obtains
    (get_crs) w1 where "k = Step_get_crs_factory" "get_crs_factory env w = (Inl e, w1)"
  | (build) crs w1 w2 where "k = Step_create_builder_and_composer"
      "get_crs_factory env w = (Inr crs, w1)"
      "create_builder_and_composer env crs w1 = (Inl e, w2)"
  | (prove) crs w1 ptrs w2 w3 where "k = Step_create_proof"
      "get_crs_factory env w = (Inr crs, w1)"
      "create_builder_and_composer env crs w1 = (Inr ptrs, w2)"
      "create_proof env ptrs w2 = (Inl e, w3)"
  | (verify) crs w1 ptrs w2 pf w3 w4 where "k = Step_verify_proof"
      "get_crs_factory env w = (Inr crs, w1)"
      "create_builder_and_composer env crs w1 = (Inr ptrs, w2)"
      "create_proof env ptrs w2 = (Inr pf, w3)"
      "verify_proof env ptrs pf w3 = (Inl e, w4)"
  | (delete) crs w1 ptrs w2 pf w3 b w4 w5 where "k = Step_delete_builder_and_composer"
      "get_crs_factory env w = (Inr crs, w1)"
      "create_builder_and_composer env crs w1 = (Inr ptrs, w2)"
      "create_proof env ptrs w2 = (Inr pf, w3)"
      "verify_proof env ptrs pf w3 = (Inr b, w4)"
      "delete_builder_and_composer env ptrs w4 = (Inl e, w5)"
proof (cases k)
  case Step_get_crs_factory
  with assms get_crs show ?thesis
    by (cases "get_crs_factory env w") auto
next
  case Step_create_builder_and_composer
  with assms obtain crs w1 where c: "crs_acquired env w = Some (crs, w1)"
    and f: "fst (create_builder_and_composer env crs w1) = Inl e"
    by (auto split: option.splits)
  from f obtain w2 where "create_builder_and_composer env crs w1 = (Inl e, w2)"
    by (cases "create_builder_and_composer env crs w1") auto
  with Step_create_builder_and_composer crs_acquiredD [OF c] build show ?thesis by blast
next
  case Step_create_proof
  with assms obtain ptrs w2 where c: "handle_built env w = Some (ptrs, w2)"
    and f: "fst (create_proof env ptrs w2) = Inl e"
    by (auto split: option.splits)
  from f obtain w3 where "create_proof env ptrs w2 = (Inl e, w3)"
    by (cases "create_proof env ptrs w2") auto
  with Step_create_proof c prove show ?thesis by (blast elim: handle_builtD)
next
  case Step_verify_proof
  with assms obtain ptrs pf w3 where c: "proof_created env w = Some (ptrs, pf, w3)"
    and f: "fst (verify_proof env ptrs pf w3) = Inl e"
    by (auto split: option.splits)
  from f obtain w4 where "verify_proof env ptrs pf w3 = (Inl e, w4)"
    by (cases "verify_proof env ptrs pf w3") auto
  with Step_verify_proof c verify show ?thesis by (blast elim: proof_createdD)
next
  case Step_delete_builder_and_composer
  with assms obtain b ptrs w4 where c: "verification_returned env w = Some (b, ptrs, w4)"
    and f: "fst (delete_builder_and_composer env ptrs w4) = Inl e"
    by (auto split: option.splits)
  from f obtain w5 where "delete_builder_and_composer env ptrs w4 = (Inl e, w5)"
    by (cases "delete_builder_and_composer env ptrs w4") auto
  with Step_delete_builder_and_composer c delete show ?thesis
    by (blast elim: verification_returnedD)
qed

lemma try_block_raises:
  assumes "raises_at env (world s) k e"
  shows "fst (try_block env valid s) = Inl e"
  using assms
  by (cases rule: raises_at_cases)
    (simp_all add: try_block_get_crs_factory_throws try_block_create_builder_and_composer_throws
      try_block_create_proof_throws try_block_verify_proof_throws
      try_block_delete_builder_and_composer_throws)


lemma try_block_raises_steps:
  assumes "raises_at env (world s) k e"
  shows "steps_called (trace (snd (try_block env valid s))) =
    steps_called (trace s) @ steps_through k"
  using assms
  by (cases rule: raises_at_cases)
    (simp_all add: try_block_get_crs_factory_throws try_block_create_builder_and_composer_throws
      try_block_create_proof_throws try_block_verify_proof_throws
      try_block_delete_builder_and_composer_throws steps_called_append,
     simp_all add: steps_called_def map_filter_def)

lemma try_block_raises_frame:
  assumes "raises_at env (world s) k e" and "k \<noteq> Step_delete_builder_and_composer"
  shows "mem (snd (try_block env valid s)) = mem s"
    and "stores_to a (trace (snd (try_block env valid s))) = stores_to a (trace s)"
  using assms
  by (cases rule: raises_at_cases;
      simp add: try_block_get_crs_factory_throws try_block_create_builder_and_composer_throws
      try_block_create_proof_throws try_block_verify_proof_throws stores_to_def map_filter_def)+

lemma course_of_call:
  obtains
    (raises) k e where "raises_at env w k e"
  | (completes) crs w1 ptrs w2 pf w3 b w4 u w5 where
      "get_crs_factory env w = (Inr crs, w1)"
      "create_builder_and_composer env crs w1 = (Inr ptrs, w2)"
      "create_proof env ptrs w2 = (Inr pf, w3)"
      "verify_proof env ptrs pf w3 = (Inr b, w4)"
      "delete_builder_and_composer env ptrs w4 = (Inr u, w5)"
proof -
  obtain r1 w1 where g: "get_crs_factory env w = (r1, w1)" by (cases "get_crs_factory env w")
  show thesis
  proof (cases r1)
    case (Inl e)
    with g have "raises_at env w Step_get_crs_factory e" by simp
    then show thesis by (rule raises)
  next
    case crs: (Inr crs)
    with g have c: "crs_acquired env w = Some (crs, w1)" by (simp add: crs_acquired_def)
    obtain r2 w2 where b: "create_builder_and_composer env crs w1 = (r2, w2)"
      by (cases "create_builder_and_composer env crs w1")
    show thesis
    proof (cases r2)
      case (Inl e)
      with b c have "raises_at env w Step_create_builder_and_composer e" by simp
      then show thesis by (rule raises)
    next
      case ptrs: (Inr ptrs)
      with b c have h: "handle_built env w = Some (ptrs, w2)" by (simp add: handle_built_def)
      obtain r3 w3 where p: "create_proof env ptrs w2 = (r3, w3)"
        by (cases "create_proof env ptrs w2")
      show thesis
      proof (cases r3)
        case (Inl e)
        with p h have "raises_at env w Step_create_proof e" by simp
        then show thesis by (rule raises)
      next
        case pf: (Inr pf)
        with p h have pc: "proof_created env w = Some (ptrs, pf, w3)"
          by (simp add: proof_created_def)
        obtain r4 w4 where v: "verify_proof env ptrs pf w3 = (r4, w4)"
          by (cases "verify_proof env ptrs pf w3")
        show thesis
        proof (cases r4)
          case (Inl e)
          with v pc have "raises_at env w Step_verify_proof e" by simp
          then show thesis by (rule raises)
        next
          case vb: (Inr vb)
          with v pc have vr: "verification_returned env w = Some (vb, ptrs, w4)"
            by (simp add: verification_returned_def)
          obtain r5 w5 where d: "delete_builder_and_composer env ptrs w4 = (r5, w5)"
            by (cases "delete_builder_and_composer env ptrs w4")
          show thesis
          proof (cases r5)
            case (Inl e)
            with d vr have "raises_at env w Step_delete_builder_and_composer e" by simp
            then show thesis by (rule raises)
          next
            case (Inr u)
            with g crs b ptrs p pf v vb d show thesis by (auto intro: completes)
          qed
        qed
      qed
    qed
  qed
qed

lemma try_block_stores:
  "stores_to valid (trace (snd (try_block env valid s))) =
     stores_to valid (trace s) @
       (case verification_returned env (world s) of None \<Rightarrow> [] | Some (b, _, _) \<Rightarrow> [b])"
  by (cases "get_crs_factory env (world s)")
     (auto simp: run_defs observer_defs stores_to_def map_filter_def
      split: prod.splits sum.splits)

lemma try_block_mem:
  "mem (snd (try_block env valid s)) =
     (case verification_returned env (world s) of
        None \<Rightarrow> mem s
      | Some (b, _, _) \<Rightarrow> (mem s)(valid := b))"
  by (cases "get_crs_factory env (world s)")
     (auto simp: run_defs observer_defs split: prod.splits sum.splits)

subsection \<open>What a run can change\<close>

lemma confined_and_then:
  fixes m :: "('a, 'w, 'crs, 'ptrs, 'prf) comp"
    and f :: "'a \<Rightarrow> ('b, 'w, 'crs, 'ptrs, 'prf) comp"
  assumes "confined P a m" and "\<And>r. confined P a (f r)"
  shows "confined P a (and_then m f)"
  unfolding confined_def
proof (intro allI impI)
  fix s :: "('w, 'crs, 'ptrs, 'prf) machine"
  assume p: "P (world s)"
  obtain r s1 where ms: "m s = (r, s1)" by (cases "m s")
  from assms(1) p ms have p1: "P (world s1)" and f1: "\<forall>x. x \<noteq> a \<longrightarrow> mem s1 x = mem s x"
    by (auto simp: confined_def)
  show "P (world (snd (and_then m f s))) \<and>
    (\<forall>x. x \<noteq> a \<longrightarrow> mem (snd (and_then m f s)) x = mem s x)"
  proof (cases r)
    case (Inl e)
    with ms p1 f1 show ?thesis by (simp add: and_then_def)
  next
    case (Inr v)
    from assms(2) [of v] p1 have "P (world (snd (f v s1)))"
      and "\<forall>x. x \<noteq> a \<longrightarrow> mem (snd (f v s1)) x = mem s1 x"
      by (auto simp: confined_def)
    with Inr ms f1 show ?thesis by (simp add: and_then_def)
  qed
qed

lemma confined_call_external:
  assumes "\<And>w. P w \<Longrightarrow> P (snd (f w))"
  shows "confined P a (call_external ev f)"
  using assms by (auto simp: confined_def call_external_def split: prod.splits) (metis snd_conv)

lemma confined_store_bool: "confined P a (store_bool a b)"
  by (simp add: confined_def store_bool_def)

lemma confined_return_value: "confined P a (return_value r)"
  by (simp add: confined_def return_value_def)

lemma confined_try_block:
  assumes "preserved_by_collaborators P env"
  shows "confined P valid (try_block env valid)"
  unfolding try_block_def
  using assms
  by (intro confined_and_then confined_call_external confined_store_bool confined_return_value)
    (simp_all add: preserved_by_collaborators_def)

section \<open>The claims of the specification\<close>




text \<open>
  Claim C2 says that a workflow handle, once created, is released exactly once before the
  entry point returns, also when \<^verbatim>\<open>create_proof\<close> or \<^verbatim>\<open>verify_proof\<close>
  throws. The only call of \<^verbatim>\<open>delete_builder_and_composer\<close> is the statement after
  the verification, which a thrown object skips. In the run below the pair 7 is created,
  \<^verbatim>\<open>create_proof\<close> throws a \<^verbatim>\<open>std::runtime_error\<close>, and the entry point
  returns its \<^verbatim>\<open>what()\<close> pointer with the pair still allocated and no call of the
  release in the trace.
\<close>

theorem handle_not_released_when_create_proof_throws:
  "examples_simple_create_and_verify_proof
     (scripted (Inr 1) (Inr 7) (Inl (runtime_error 100 ''proving key missing'')) (Inr True) (Inr ()))
     0 (fresh False) =
   (Returned (Some 100),
    \<lparr>world = {7}, mem = (\<lambda>_. False), cstrings = (\<lambda>_. None),
     trace = [Called_get_crs_factory, Called_create_builder_and_composer 1,
       Called_create_proof 7]\<rparr>)"
  by (simp add: example_defs fun_eq_iff)

text \<open>
  Claim C3: when no external call throws, the entry point acquires the global setup
  parameters, builds the handle from them, creates a proof from the handle, verifies the
  proof against the handle, stores the result at \<^verbatim>\<open>valid\<close>, releases the handle,
  in this order and nothing else, and returns the null pointer.
\<close>

theorem success_path_sequence:
  assumes "get_crs_factory env (world s) = (Inr crs, w1)"
    and "create_builder_and_composer env crs w1 = (Inr ptrs, w2)"
    and "create_proof env ptrs w2 = (Inr pf, w3)"
    and "verify_proof env ptrs pf w3 = (Inr b, w4)"
    and "delete_builder_and_composer env ptrs w4 = (Inr (), w5)"
  shows "examples_simple_create_and_verify_proof env valid s =
    (Returned None,
     s\<lparr>world := w5, mem := (mem s)(valid := b),
       trace := trace s @
         [Called_get_crs_factory, Called_create_builder_and_composer crs,
          Called_create_proof ptrs, Called_verify_proof ptrs pf, Stored valid b,
          Called_delete_builder_and_composer ptrs]\<rparr>)"
  by (simp add: examples_simple_create_and_verify_proof_def try_block_completes [OF assms])

theorem success_path_sequence_witness:
  "examples_simple_create_and_verify_proof
     (scripted (Inr 1) (Inr 7) (Inr 3) (Inr True) (Inr ())) 0 (fresh False) =
   (Returned None,
    (fresh False)\<lparr>world := {}, mem := (mem (fresh False))(0 := True),
      trace := trace (fresh False) @
        [Called_get_crs_factory, Called_create_builder_and_composer 1,
         Called_create_proof 7, Called_verify_proof 7 3, Stored 0 True,
         Called_delete_builder_and_composer 7]\<rparr>)"
  by (rule success_path_sequence [where ?w1.0 = "{}" and ?w2.0 = "{7}" and ?w3.0 = "{7}"
        and ?w4.0 = "{7}"])
    (simp_all add: scripted_def fresh_def)

text \<open>
  Claim C4: the boolean at \<^verbatim>\<open>valid\<close> is written if and only if
  \<^verbatim>\<open>verify_proof\<close> is reached and returns: the call stores the returned value once
  in that case and stores nothing otherwise. In particular, when the acquisition of the
  setup parameters, the construction of the handle, the creation of the proof or the
  verification throws, nothing is stored and the memory is as it was.
\<close>

theorem valid_written_iff_verification_returns:
  "stores_to valid (trace (snd (examples_simple_create_and_verify_proof env valid s))) =
     stores_to valid (trace s) @
       (case verification_returned env (world s) of None \<Rightarrow> [] | Some (b, _, _) \<Rightarrow> [b]) \<and>
   mem (snd (examples_simple_create_and_verify_proof env valid s)) =
     (case verification_returned env (world s) of
        None \<Rightarrow> mem s
      | Some (b, _, _) \<Rightarrow> (mem s)(valid := b)) \<and>
   (\<forall>k e. raises_at env (world s) k e \<longrightarrow> k \<noteq> Step_delete_builder_and_composer \<longrightarrow>
      stores_to valid (trace (snd (examples_simple_create_and_verify_proof env valid s))) =
        stores_to valid (trace s) \<and>
      mem (snd (examples_simple_create_and_verify_proof env valid s)) = mem s)"
proof (intro conjI allI impI)
  show "stores_to valid (trace (snd (examples_simple_create_and_verify_proof env valid s))) =
     stores_to valid (trace s) @
       (case verification_returned env (world s) of None \<Rightarrow> [] | Some (b, _, _) \<Rightarrow> [b])"
    by (simp add: entry_state try_block_stores)
  show "mem (snd (examples_simple_create_and_verify_proof env valid s)) =
     (case verification_returned env (world s) of
        None \<Rightarrow> mem s
      | Some (b, _, _) \<Rightarrow> (mem s)(valid := b))"
    by (simp add: entry_state try_block_mem)
next
  fix k e
  assume "raises_at env (world s) k e" and "k \<noteq> Step_delete_builder_and_composer"
  then show "stores_to valid (trace (snd (examples_simple_create_and_verify_proof env valid s))) =
      stores_to valid (trace s)"
    and "mem (snd (examples_simple_create_and_verify_proof env valid s)) = mem s"
    by (simp_all add: entry_state try_block_raises_frame)
qed

theorem valid_written_iff_verification_returns_witness:
  "raises_at (scripted (Inr 1) (Inr 7) (Inl (runtime_error 100 ''proving key missing'')) (Inr True) (Inr ()))
     (world (fresh False)) Step_create_proof (runtime_error 100 ''proving key missing'') \<and>
   Step_create_proof \<noteq> Step_delete_builder_and_composer \<and>
   stores_to 0 (trace (snd (examples_simple_create_and_verify_proof
     (scripted (Inr 1) (Inr 7) (Inl (runtime_error 100 ''proving key missing'')) (Inr True) (Inr ()))
     0 (fresh False)))) = stores_to 0 (trace (fresh False)) \<and>
   mem (snd (examples_simple_create_and_verify_proof
     (scripted (Inr 1) (Inr 7) (Inl (runtime_error 100 ''proving key missing'')) (Inr True) (Inr ()))
     0 (fresh False))) = mem (fresh False)"
proof -
  have r: "raises_at
     (scripted (Inr 1) (Inr 7) (Inl (runtime_error 100 ''proving key missing'')) (Inr True) (Inr ()))
     (world (fresh False)) Step_create_proof (runtime_error 100 ''proving key missing'')"
    by (simp add: handle_built_def crs_acquired_def scripted_def)
  have n: "Step_create_proof \<noteq> Step_delete_builder_and_composer" by simp
  from valid_written_iff_verification_returns
    [of 0 "scripted (Inr 1) (Inr 7) (Inl (runtime_error 100 ''proving key missing'')) (Inr True) (Inr ())"
      "fresh False"] r n
  show ?thesis by blast
qed

text \<open>
  Claim C5: in a call in which \<^verbatim>\<open>verify_proof\<close> returns false and nothing
  throws, the entry point stores false at \<^verbatim>\<open>valid\<close> and returns the null pointer:
  an invalid proof is a successful call.
\<close>

theorem invalid_proof_is_success:
  assumes "get_crs_factory env (world s) = (Inr crs, w1)"
    and "create_builder_and_composer env crs w1 = (Inr ptrs, w2)"
    and "create_proof env ptrs w2 = (Inr pf, w3)"
    and "verify_proof env ptrs pf w3 = (Inr False, w4)"
    and "delete_builder_and_composer env ptrs w4 = (Inr (), w5)"
  shows "fst (examples_simple_create_and_verify_proof env valid s) = Returned None \<and>
    mem (snd (examples_simple_create_and_verify_proof env valid s)) valid = False \<and>
    stores_to valid (trace (snd (examples_simple_create_and_verify_proof env valid s))) =
      stores_to valid (trace s) @ [False]"
  by (simp add: examples_simple_create_and_verify_proof_def try_block_completes [OF assms]
      stores_to_append)
    (simp add: stores_to_def map_filter_simps)

theorem invalid_proof_is_success_witness:
  "fst (examples_simple_create_and_verify_proof
     (scripted (Inr 1) (Inr 7) (Inr 3) (Inr False) (Inr ())) 0 (fresh True)) = Returned None \<and>
   mem (snd (examples_simple_create_and_verify_proof
     (scripted (Inr 1) (Inr 7) (Inr 3) (Inr False) (Inr ())) 0 (fresh True))) 0 = False \<and>
   stores_to 0 (trace (snd (examples_simple_create_and_verify_proof
     (scripted (Inr 1) (Inr 7) (Inr 3) (Inr False) (Inr ())) 0 (fresh True)))) =
     stores_to 0 (trace (fresh True)) @ [False]"
proof -
  have g: "get_crs_factory (scripted (Inr 1) (Inr 7) (Inr 3) (Inr False) (Inr ()))
      (world (fresh True)) = (Inr 1, {})"
    and b: "create_builder_and_composer (scripted (Inr 1) (Inr 7) (Inr 3) (Inr False) (Inr ()))
      1 {} = (Inr 7, {7})"
    and p: "create_proof (scripted (Inr 1) (Inr 7) (Inr 3) (Inr False) (Inr ())) 7 {7} =
      (Inr 3, {7})"
    and v: "verify_proof (scripted (Inr 1) (Inr 7) (Inr 3) (Inr False) (Inr ())) 7 3 {7} =
      (Inr False, {7})"
    and d: "delete_builder_and_composer (scripted (Inr 1) (Inr 7) (Inr 3) (Inr False) (Inr ()))
      7 {7} = (Inr (), {})"
    by (simp_all add: scripted_def fresh_def)
  show ?thesis by (rule invalid_proof_is_success [OF g b p v d])
qed

text \<open>
  Claim C6: the entry point changes the caller's memory at \<^verbatim>\<open>valid\<close> only, and it
  changes the external state only through the external functions: every property of the
  external state that these functions keep holds after the call if it held before.
\<close>

theorem only_valid_and_external_state_change:
  assumes "preserved_by_collaborators P env" and "P (world s)"
  shows "P (world (snd (examples_simple_create_and_verify_proof env valid s))) \<and>
    (\<forall>a. a \<noteq> valid \<longrightarrow>
       mem (snd (examples_simple_create_and_verify_proof env valid s)) a = mem s a)"
proof -
  from confined_try_block [OF assms(1), of valid]
  have "P (world s) \<longrightarrow> P (world (snd (try_block env valid s))) \<and>
    (\<forall>a. a \<noteq> valid \<longrightarrow> mem (snd (try_block env valid s)) a = mem s a)"
    unfolding confined_def by blast
  with assms(2) show ?thesis by (simp add: entry_state)
qed

theorem only_valid_and_external_state_change_witness:
  "preserved_by_collaborators (\<lambda>w. w \<subseteq> {7})
     (scripted (Inr 1) (Inr 7) (Inr 3) (Inr True) (Inr ())) \<and>
   world (fresh False) \<subseteq> {7} \<and>
   world (snd (examples_simple_create_and_verify_proof
     (scripted (Inr 1) (Inr 7) (Inr 3) (Inr True) (Inr ())) 0 (fresh False))) \<subseteq> {7} \<and>
   mem (snd (examples_simple_create_and_verify_proof
     (scripted (Inr 1) (Inr 7) (Inr 3) (Inr True) (Inr ())) 0 (fresh False))) 1 =
     mem (fresh False) 1"
proof -
  have p: "preserved_by_collaborators (\<lambda>w. w \<subseteq> {7})
     (scripted (Inr 1) (Inr 7) (Inr 3) (Inr True) (Inr ()))"
    by (auto simp: preserved_by_collaborators_def scripted_def)
  have w: "world (fresh False) \<subseteq> {7}" by (simp add: fresh_def)
  have n: "(1::nat) \<noteq> 0" by simp
  from only_valid_and_external_state_change [OF p w, of 0] n p w show ?thesis by blast
qed

text \<open>
  Claim C8: when no external call throws, the value returned is the null pointer itself
  and no non-null pointer, so not a pointer to an empty string either.
\<close>

theorem success_returns_null_pointer:
  assumes "\<forall>k e. \<not> raises_at env (world s) k e"
  shows "fst (examples_simple_create_and_verify_proof env valid s) = Returned None \<and>
    (\<forall>a. fst (examples_simple_create_and_verify_proof env valid s) \<noteq> Returned (Some a))"
proof (cases rule: course_of_call [of env "world s"])
  case (raises k e)
  with assms show ?thesis by blast
next
  case (completes crs w1 ptrs w2 pf w3 b w4 u w5)
  then show ?thesis
    by (simp add: examples_simple_create_and_verify_proof_def try_block_completes)
qed

theorem success_returns_null_pointer_witness:
  "(\<forall>k e. \<not> raises_at (scripted (Inr 1) (Inr 7) (Inr 3) (Inr True) (Inr ()))
      (world (fresh False)) k e) \<and>
   fst (examples_simple_create_and_verify_proof
     (scripted (Inr 1) (Inr 7) (Inr 3) (Inr True) (Inr ())) 0 (fresh False)) = Returned None \<and>
   (\<forall>a. fst (examples_simple_create_and_verify_proof
     (scripted (Inr 1) (Inr 7) (Inr 3) (Inr True) (Inr ())) 0 (fresh False)) \<noteq>
     Returned (Some a))"
proof -
  have n: "\<forall>k e. \<not> raises_at (scripted (Inr 1) (Inr 7) (Inr 3) (Inr True) (Inr ()))
      (world (fresh False)) k e"
  proof (intro allI)
    fix k e
    show "\<not> raises_at (scripted (Inr 1) (Inr 7) (Inr 3) (Inr True) (Inr ()))
      (world (fresh False)) k e"
      by (cases k) (simp_all add: observer_defs scripted_def)
  qed
  from success_returns_null_pointer [OF n, of 0] n show ?thesis by blast
qed

text \<open>
  Claim C9 says that after a failure of an external step no later operation of the
  workflow is invoked and the entry point proceeds directly to producing the diagnostic.
  No later operation is invoked, but a diagnostic is produced only for a thrown
  \<^verbatim>\<open>std::exception\<close>. In the run below \<^verbatim>\<open>create_builder_and_composer\<close>
  throws an object of another type: the calls stop there and the object leaves the call,
  with no diagnostic.
\<close>

theorem other_throwable_yields_no_diagnostic:
  "fst (examples_simple_create_and_verify_proof
     (scripted (Inr 1) (Inl Other_throwable) (Inr 3) (Inr True) (Inr ())) 0 (fresh False)) =
     Propagated Other_throwable \<and>
   steps_called (trace (snd (examples_simple_create_and_verify_proof
     (scripted (Inr 1) (Inl Other_throwable) (Inr 3) (Inr True) (Inr ())) 0 (fresh False)))) =
     [Step_get_crs_factory, Step_create_builder_and_composer]"
  by (simp add: example_defs steps_called_def map_filter_simps)

text \<open>
  Claim C9, amended: when the external call of step \<open>k\<close> throws, the calls made are
  those up to step \<open>k\<close> and no later one, and control passes directly to the handler:
  it returns the diagnostic pointer for a thrown \<^verbatim>\<open>std::exception\<close> and lets
  any other thrown object propagate.
\<close>

theorem failure_skips_later_steps:
  assumes "raises_at env (world s) k e"
  shows "steps_called (trace (snd (examples_simple_create_and_verify_proof env valid s))) =
      steps_called (trace s) @ steps_through k \<and>
    fst (examples_simple_create_and_verify_proof env valid s) = catch_std_exception e"
  using try_block_raises [OF assms, of valid] try_block_raises_steps [OF assms, of valid]
  by (simp add: entry_state entry_outcome)

theorem failure_skips_later_steps_witness:
  "raises_at (scripted (Inr 1) (Inl (runtime_error 100 ''circuit too large'')) (Inr 3) (Inr True) (Inr ()))
     (world (fresh False)) Step_create_builder_and_composer (runtime_error 100 ''circuit too large'') \<and>
   steps_called (trace (snd (examples_simple_create_and_verify_proof
     (scripted (Inr 1) (Inl (runtime_error 100 ''circuit too large'')) (Inr 3) (Inr True) (Inr ()))
     0 (fresh False)))) =
     steps_called (trace (fresh False)) @ steps_through Step_create_builder_and_composer \<and>
   fst (examples_simple_create_and_verify_proof
     (scripted (Inr 1) (Inl (runtime_error 100 ''circuit too large'')) (Inr 3) (Inr True) (Inr ()))
     0 (fresh False)) = Returned (Some 100)"
proof -
  have r: "raises_at
     (scripted (Inr 1) (Inl (runtime_error 100 ''circuit too large'')) (Inr 3) (Inr True) (Inr ()))
     (world (fresh False)) Step_create_builder_and_composer (runtime_error 100 ''circuit too large'')"
    by (simp add: crs_acquired_def scripted_def)
  from failure_skips_later_steps [OF r, of 0] r show ?thesis
    by (simp add: runtime_error_def)
qed


text \<open>
  Claim C10 says that for a fixed behaviour of the external functions two calls produce
  an identical diagnostic return value and an identical effect on the output boolean,
  the entry point adding no nondeterminism of its own. The comment in the handler says
  that it returns the exception message; what it returns is \<^verbatim>\<open>e.what()\<close>, a pointer
  into the exception object, which is destroyed when the handler is left. In the run
  below \<^verbatim>\<open>get_crs_factory\<close> throws a \<^verbatim>\<open>std::runtime_error\<close> whose message
  is at address 100: the message is alive there when the handler is entered, the entry
  point returns the pointer 100, and no string is alive at 100 when the caller receives
  it. What the caller reads as the diagnostic is therefore not fixed by what the external
  functions did.
\<close>

theorem returned_diagnostic_dangles:
  "cstrings (snd (try_block
     (scripted (Inl (runtime_error 100 ''global CRS not initialized'')) (Inr 7) (Inr 3)
       (Inr True) (Inr ())) 0 (fresh False))) 100 = Some ''global CRS not initialized'' \<and>
   fst (examples_simple_create_and_verify_proof
     (scripted (Inl (runtime_error 100 ''global CRS not initialized'')) (Inr 7) (Inr 3)
       (Inr True) (Inr ())) 0 (fresh False)) = Returned (Some 100) \<and>
   cstrings (snd (examples_simple_create_and_verify_proof
     (scripted (Inl (runtime_error 100 ''global CRS not initialized'')) (Inr 7) (Inr 3)
       (Inr True) (Inr ())) 0 (fresh False))) 100 = None"
  by (simp add: example_defs)

end
